theory Spec2Isabelle
  imports Main "HOL-Library.AList" "HOL-Library.Finite_Map" "HOL-Library.Char_ord"
    "HOL-Library.List_Lexorder"
begin

section \<open>JavaScript values\<close>

text \<open>
  The diagram engine of \<^verbatim>\<open>src/Graph.ts\<close> passes untyped values around: a style is a string
  or a plain object, a title may be missing, a corner radius is whatever the caller sent.
  \<open>jsval\<close> is the fragment of JavaScript values the engine handles. A number is modelled
  by the integer it holds (\<open>JNum\<close>) or is \<open>JNaN\<close>; fractions and infinities are not
  represented. An object is the list of its own enumerable properties in enumeration
  order, without repeated keys. A string is a list of 8-bit characters.
\<close>

datatype jsval = JUndefined | JNull | JBool bool | JNum int | JNaN | JStr string
  | JObj "(string \<times> jsval) list"

type_synonym jsobj = "(string \<times> jsval) list"

definition digit_char :: "nat \<Rightarrow> char" where
  "digit_char d = ''0123456789'' ! d"

fun show_nat :: "nat \<Rightarrow> string" where
  "show_nat n =
     (if n < 10 then [digit_char n] else show_nat (n div 10) @ [digit_char (n mod 10)])"

declare show_nat.simps [simp del]

definition show_int :: "int \<Rightarrow> string" where
  "show_int i = (if i < 0 then CHR ''-'' # show_nat (nat (- i)) else show_nat (nat i))"

text \<open>\<^verbatim>\<open>String(v)\<close> and the conversion of a template literal \<^verbatim>\<open>`${v}`\<close>. The decimal
  rendering of a number is the one JavaScript prints for integers below \<open>10\<^sup>2\<^sup>1\<close>.\<close>

fun js_String :: "jsval \<Rightarrow> string" where
  "js_String JUndefined = ''undefined''"
| "js_String JNull = ''null''"
| "js_String (JBool b) = (if b then ''true'' else ''false'')"
| "js_String (JNum n) = show_int n"
| "js_String JNaN = ''NaN''"
| "js_String (JStr s) = s"
| "js_String (JObj ps) = ''[object Object]''"

text \<open>The truth value of \<^verbatim>\<open>v ? a : b\<close> and \<^verbatim>\<open>if (v)\<close>.\<close>

fun truthy :: "jsval \<Rightarrow> bool" where
  "truthy JUndefined = False"
| "truthy JNull = False"
| "truthy (JBool b) = b"
| "truthy (JNum n) = (n \<noteq> 0)"
| "truthy JNaN = False"
| "truthy (JStr s) = (s \<noteq> [])"
| "truthy (JObj ps) = True"

text \<open>\<^verbatim>\<open>s.split(c)\<close> for a one-character separator: always at least one part.\<close>

fun js_split :: "char \<Rightarrow> string \<Rightarrow> string list" where
  "js_split c [] = [[]]"
| "js_split c (x # xs) =
     (if x = c then [] # js_split c xs
      else (case js_split c xs of [] \<Rightarrow> [[x]] | part # parts \<Rightarrow> (x # part) # parts))"

text \<open>
  \<^verbatim>\<open>ob[k] = v\<close> on a plain object: an existing property keeps its place, a new one goes
  last. Assigning a string to \<^verbatim>\<open>__proto__\<close> runs the inherited setter, which ignores it.
  (JavaScript enumerates keys that are array indices first; the engine creates no such
  key itself, and the model keeps insertion order for them too.)
\<close>

definition obj_set :: "string \<Rightarrow> jsval \<Rightarrow> jsobj \<Rightarrow> jsobj" where
  "obj_set k v ob = (if k = ''__proto__'' then ob else AList.update k v ob)"

text \<open>\<^verbatim>\<open>ob[k]\<close>, \<^verbatim>\<open>undefined\<close> for a missing property.\<close>

definition obj_get :: "jsobj \<Rightarrow> string \<Rightarrow> jsval" where
  "obj_get ob k = (case map_of ob k of Some v \<Rightarrow> v | None \<Rightarrow> JUndefined)"

section \<open>Style codec\<close>

text \<open>
  \<^verbatim>\<open>parseStyle\<close> (Graph.ts 139-148). One step of the \<^verbatim>\<open>reduce\<close>:
  \<^verbatim>\<open>const [k, v] = kv.split('='); acc[k] = v === undefined ? '' : v\<close>.
  The destructuring keeps the first two parts of the split and drops the others.
\<close>

definition parse_entry :: "jsobj \<Rightarrow> string \<Rightarrow> jsobj" where
  "parse_entry acc kv =
     (case js_split CHR ''='' kv of
        [] \<Rightarrow> acc
      | [k] \<Rightarrow> obj_set k (JStr []) acc
      | k # v # _ \<Rightarrow> obj_set k (JStr v) acc)"

text \<open>A string is split at \<^verbatim>\<open>;\<close> and its empty segments are dropped (\<^verbatim>\<open>filter(Boolean)\<close>);
  anything else is spread into a fresh object (\<^verbatim>\<open>{ ...style }\<close>), which is empty for a
  value that is not an object.\<close>

definition parseStyle :: "jsval \<Rightarrow> jsobj" where
  "parseStyle style =
     (case style of
        JStr s \<Rightarrow> foldl parse_entry [] (filter (\<lambda>seg. seg \<noteq> []) (js_split CHR '';'' s))
      | JObj ps \<Rightarrow> ps
      | _ \<Rightarrow> [])"

text \<open>
  \<^verbatim>\<open>stringifyStyle\<close> (Graph.ts 169-173). One step of the \<^verbatim>\<open>reduce\<close>:
  \<^verbatim>\<open>value === undefined ? tmp : tmp += key + (value ? `=${value}` : '') + ';'\<close>.
\<close>

definition style_entry :: "string \<Rightarrow> string \<times> jsval \<Rightarrow> string" where
  "style_entry tmp kv =
     (case kv of (key, val) \<Rightarrow>
        if val = JUndefined then tmp
        else tmp @ key @ (if truthy val then CHR ''='' # js_String val else []) @ '';'')"

definition stringifyStyle :: "jsobj \<Rightarrow> string" where
  "stringifyStyle style = foldl style_entry [] style"

text \<open>A text without the two delimiters of the style format.\<close>

definition plain :: "string \<Rightarrow> bool" where
  "plain s \<longleftrightarrow> CHR '';'' \<notin> set s \<and> CHR ''='' \<notin> set s"

text \<open>A style mapping the format can carry: distinct keys, string values, no delimiter
  inside a key or a value, and no key \<^verbatim>\<open>__proto__\<close>.\<close>

definition plain_style :: "jsobj \<Rightarrow> bool" where
  "plain_style m \<longleftrightarrow>
     distinct (map fst m) \<and>
     (\<forall>(k, v) \<in> set m. k \<noteq> ''__proto__'' \<and> plain k \<and> (\<exists>s. v = JStr s \<and> plain s))"

text \<open>The text one entry contributes, without its closing \<^verbatim>\<open>;\<close>.\<close>

definition segment :: "string \<times> jsval \<Rightarrow> string" where
  "segment kv = (case kv of (k, v) \<Rightarrow> k @ (if truthy v then CHR ''='' # js_String v else []))"

text \<open>An entry with a delimiter-free key and a delimiter-free string value.\<close>

definition text_entry :: "string \<times> jsval \<Rightarrow> bool" where
  "text_entry e \<longleftrightarrow> plain (fst e) \<and> (\<exists>s. snd e = JStr s \<and> plain s)"

section \<open>Numbers read from text\<close>

definition is_digit :: "char \<Rightarrow> bool" where
  "is_digit c \<longleftrightarrow> c \<in> set ''0123456789''"

definition digit_val :: "char \<Rightarrow> nat" where
  "digit_val c = of_char c - 48"

definition digits_val :: "string \<Rightarrow> nat" where
  "digits_val ds = foldl (\<lambda>a c. 10 * a + digit_val c) 0 ds"

text \<open>The white space \<^verbatim>\<open>parseInt\<close> skips, within ASCII: tab, line feed, vertical tab, form
  feed, carriage return and space.\<close>

definition js_whitespace :: "char \<Rightarrow> bool" where
  "js_whitespace c \<longleftrightarrow> c \<in> set [CHR 0x09, CHR 0x0A, CHR 0x0B, CHR 0x0C, CHR 0x0D, CHR '' '']"

text \<open>
  \<^verbatim>\<open>parseInt(s, 10)\<close>: leading white space, an optional sign, then the longest run of
  decimal digits; \<open>None\<close> is \<^verbatim>\<open>NaN\<close> (no digit where one is expected).
\<close>

definition parseInt :: "string \<Rightarrow> int option" where
  "parseInt s =
     (let t = dropWhile js_whitespace s;
          neg = (t \<noteq> [] \<and> hd t = CHR ''-'');
          u = (if t \<noteq> [] \<and> (hd t = CHR ''-'' \<or> hd t = CHR ''+'') then tl t else t);
          ds = takeWhile is_digit u
      in if ds = [] then None
         else Some (if neg then - int (digits_val ds) else int (digits_val ds)))"

section \<open>Kind catalog\<close>

definition DEFAULT_CORNER_RADIUS :: int where
  "DEFAULT_CORNER_RADIUS = 12"

definition KIND_ROUNDED_RECTANGLE :: string where
  "KIND_ROUNDED_RECTANGLE = ''RoundedRectangle''"

definition PROP_ARC_SIZE :: string where
  "PROP_ARC_SIZE = ''arcSize''"

definition PROP_ABSOLUTE_ARC_SIZE :: string where
  "PROP_ABSOLUTE_ARC_SIZE = ''absoluteArcSize''"

definition STYLE_OVERRIDE_KEYS :: "string list" where
  "STYLE_OVERRIDE_KEYS =
     [''fillColor'', ''strokeColor'', ''fontColor'', ''strokeWidth'', ''fontSize'',
      ''fontStyle'', ''fontFamily'', ''opacity'']"

text \<open>
  \<^verbatim>\<open>Graph.Kinds\<close> (Graph.ts 77-88), each kind an object with the properties \<^verbatim>\<open>style\<close>,
  \<^verbatim>\<open>width\<close> and \<^verbatim>\<open>height\<close>. The styles of \<^verbatim>\<open>Rectangle\<close> and \<^verbatim>\<open>Ellipse\<close> are objects, the
  others are strings; the one of \<^verbatim>\<open>RoundedRectangle\<close> is a template literal that ends in
  \<^verbatim>\<open>${DEFAULT_CORNER_RADIUS * 2}\<close>.
\<close>

definition kind_entry :: "jsval \<Rightarrow> int \<Rightarrow> int \<Rightarrow> jsobj" where
  "kind_entry style width height =
     [(''style'', style), (''width'', JNum width), (''height'', JNum height)]"

definition Kinds :: "(string \<times> jsobj) list" where
  "Kinds =
     [(''Rectangle'', kind_entry
         (JObj [(''rounded'', JNum 1), (''whiteSpace'', JStr ''wrap''), (''html'', JNum 1)]) 120 60),
      (''Ellipse'', kind_entry
         (JObj [(''ellipse'', JStr []), (''whiteSpace'', JStr ''wrap''), (''html'', JNum 1)]) 120 80),
      (''Cylinder'', kind_entry
         (JStr ''shape=cylinder3;whiteSpace=wrap;html=1;boundedLbl=1;backgroundOutline=1;size=15;'')
         60 80),
      (''Cloud'', kind_entry (JStr ''ellipse;shape=cloud;whiteSpace=wrap;html=1;'') 120 80),
      (''Square'', kind_entry (JStr ''whiteSpace=wrap;html=1;aspect=fixed;rounded=1;'') 80 80),
      (''Circle'', kind_entry (JStr ''ellipse;whiteSpace=wrap;html=1;aspect=fixed;'') 80 80),
      (''Step'', kind_entry
         (JStr ''shape=step;perimeter=stepPerimeter;whiteSpace=wrap;html=1;fixedSize=1;'') 120 80),
      (''Actor'', kind_entry
         (JStr (''shape=umlActor;verticalLabelPosition=bottom;verticalAlign=top;html=1;''
                @ ''outlineConnect=0;'')) 30 60),
      (''Text'', kind_entry
         (JStr (''text;html=1;strokeColor=none;fillColor=none;align=center;''
                @ ''verticalAlign=middle;whiteSpace=wrap;rounded=0;'')) 60 30),
      (''RoundedRectangle'', kind_entry
         (JStr (''whiteSpace=wrap;html=1;rounded=1;absoluteArcSize=1;arcSize=''
                @ js_String (JNum (DEFAULT_CORNER_RADIUS * 2)))) 120 60)]"

definition normalizeKind :: "string \<Rightarrow> string" where
  "normalizeKind kind = (if kind = ''Elipse'' then ''Ellipse'' else kind)"

text \<open>\<^verbatim>\<open>{ ...a, ...b }\<close>: the properties of \<open>a\<close>, then those of \<open>b\<close> over them.\<close>

definition js_spread :: "jsobj \<Rightarrow> jsobj \<Rightarrow> jsobj" where
  "js_spread a b = foldl (\<lambda>ob kv. AList.update (fst kv) (snd kv) ob) a b"

section \<open>Styles of nodes\<close>

text \<open>
  \<^verbatim>\<open>adjustStyleByKind\<close> (Graph.ts 189-202). For a rounded rectangle the style is parsed
  and written again; when a corner radius is given (\<^verbatim>\<open>corner_radius !== undefined\<close>),
  \<^verbatim>\<open>absoluteArcSize\<close> becomes \<^verbatim>\<open>'1'\<close> and \<^verbatim>\<open>arcSize\<close> becomes twice the radius read by
  \<^verbatim>\<open>parseInt(String(corner_radius), 10)\<close>, or twice the default when that is \<^verbatim>\<open>NaN\<close> or
  below 1. For any other kind the style is returned as it came.
\<close>

definition arcSize_of :: "jsval \<Rightarrow> int" where
  "arcSize_of corner_radius =
     (case parseInt (js_String corner_radius) of
        Some cr \<Rightarrow> if cr \<ge> 1 then cr * 2 else DEFAULT_CORNER_RADIUS * 2
      | None \<Rightarrow> DEFAULT_CORNER_RADIUS * 2)"

definition adjustStyleByKind :: "jsval \<Rightarrow> string \<Rightarrow> jsval \<Rightarrow> jsval" where
  "adjustStyleByKind style kind corner_radius =
     (if kind = KIND_ROUNDED_RECTANGLE then
        let styleObj = parseStyle style;
            styleObj' =
              (if corner_radius \<noteq> JUndefined then
                 obj_set PROP_ARC_SIZE (JStr (js_String (JNum (arcSize_of corner_radius))))
                   (obj_set PROP_ABSOLUTE_ARC_SIZE (JStr ''1'') styleObj)
               else styleObj)
        in JStr (stringifyStyle styleObj')
      else style)"

text \<open>
  \<^verbatim>\<open>mergeStyleOverrides\<close> (Graph.ts 208-216): with no defined override the style is
  returned as it came; otherwise it is parsed, each override is stored as
  \<^verbatim>\<open>String(value)\<close>, and the result is written as a string.
\<close>

definition mergeStyleOverrides :: "jsval \<Rightarrow> jsobj \<Rightarrow> jsval" where
  "mergeStyleOverrides styleStr overrides =
     (let defined = filter (\<lambda>kv. snd kv \<noteq> JUndefined) overrides
      in if defined = [] then styleStr
         else JStr (stringifyStyle
                (foldl (\<lambda>styleObj kv. obj_set (fst kv) (JStr (js_String (snd kv))) styleObj)
                   (parseStyle styleStr) defined)))"

text \<open>\<^verbatim>\<open>pickStyleOverrides\<close> (Graph.ts 221-229): the override keys the parameters define,
  in the order of \<^verbatim>\<open>STYLE_OVERRIDE_KEYS\<close>.\<close>

definition pickStyleOverrides :: "jsobj \<Rightarrow> jsobj" where
  "pickStyleOverrides params =
     foldl (\<lambda>result key.
              if obj_get params key \<noteq> JUndefined then obj_set key (obj_get params key) result
              else result)
       [] STYLE_OVERRIDE_KEYS"

section \<open>The cell store\<close>

text \<open>
  The engine keeps its nodes and edges in the model of a graph library, reached through
  \<^verbatim>\<open>./mxgraph/index.js\<close>; the library is not part of the sources under \<^verbatim>\<open>src/\<close>. Its
  cells, and the operations \<^verbatim>\<open>Graph.ts\<close> calls on them, are modelled here. A cell is
  stored under its identifier; \<open>cell_parent\<close>, \<open>cell_source\<close> and \<open>cell_target\<close> name
  other cells by identifier, \<open>None\<close> standing for the implicit root as a parent and for a
  missing terminal of an edge. The two structural cells of every model (the root and its
  default layer) are not represented.
\<close>

datatype js_error = Error string | TypeError

datatype cell_kind = Vertex | Edge

record mxGeometry =
  geo_x :: jsval
  geo_y :: jsval
  geo_width :: jsval
  geo_height :: jsval
  geo_relative :: bool
  geo_points :: "(int \<times> int) list option"

record mxCell =
  cell_value :: jsval
  cell_style :: jsval
  cell_geometry :: "mxGeometry option"
  cell_kind :: cell_kind
  cell_parent :: "string option"
  cell_source :: "string option"
  cell_target :: "string option"

record mxGraphModel =
  cells :: "(string, mxCell) fmap"
  nextId :: nat

text \<open>\<^verbatim>\<open>a ?? b\<close>.\<close>

definition nullish :: "jsval \<Rightarrow> bool" where
  "nullish v \<longleftrightarrow> v = JUndefined \<or> v = JNull"

definition js_coalesce :: "jsval \<Rightarrow> jsval \<Rightarrow> jsval" where
  "js_coalesce a b = (if nullish a then b else a)"

text \<open>Modelled from the spec: the constructor \<^verbatim>\<open>new mxGeometry(x, y, width, height)\<close> of the
  graph library, which is not under \<^verbatim>\<open>src/\<close>. The spec's node has a position and a size;
  the constructor stores the four values, 0 for one that is missing, in a geometry that
  is absolute and has no routing points.\<close>

definition new_mxGeometry :: "jsval \<Rightarrow> jsval \<Rightarrow> jsval \<Rightarrow> jsval \<Rightarrow> mxGeometry" where
  "new_mxGeometry x y width height =
     \<lparr>geo_x = js_coalesce x (JNum 0), geo_y = js_coalesce y (JNum 0),
      geo_width = js_coalesce width (JNum 0), geo_height = js_coalesce height (JNum 0),
      geo_relative = False, geo_points = None\<rparr>"

text \<open>Modelled from the spec: \<^verbatim>\<open>model.getCell(id)\<close> of the graph library, the lookup of the
  spec's Node/Edge Store: the cell stored under the identifier, if there is one.\<close>

definition getCell :: "mxGraphModel \<Rightarrow> string \<Rightarrow> mxCell option" where
  "getCell g i = fmlookup (cells g) i"

text \<open>\<^verbatim>\<open>cell.setValue\<close>, \<^verbatim>\<open>cell.setStyle\<close> and \<^verbatim>\<open>cell.setGeometry\<close> on a cell of the
  store: the cell under \<open>i\<close> is replaced by its changed copy.\<close>

definition update_cell :: "mxGraphModel \<Rightarrow> string \<Rightarrow> (mxCell \<Rightarrow> mxCell) \<Rightarrow> mxGraphModel" where
  "update_cell g i f =
     (case fmlookup (cells g) i of
        None \<Rightarrow> g
      | Some c \<Rightarrow> g\<lparr>cells := fmupd i (f c) (cells g)\<rparr>)"

definition setValue :: "mxGraphModel \<Rightarrow> string \<Rightarrow> jsval \<Rightarrow> mxGraphModel" where
  "setValue g i v = update_cell g i (\<lambda>c. c\<lparr>cell_value := v\<rparr>)"

definition setStyle :: "mxGraphModel \<Rightarrow> string \<Rightarrow> jsval \<Rightarrow> mxGraphModel" where
  "setStyle g i s = update_cell g i (\<lambda>c. c\<lparr>cell_style := s\<rparr>)"

definition setGeometry :: "mxGraphModel \<Rightarrow> string \<Rightarrow> mxGeometry \<Rightarrow> mxGraphModel" where
  "setGeometry g i geo = update_cell g i (\<lambda>c. c\<lparr>cell_geometry := Some geo\<rparr>)"

text \<open>
  Modelled from the spec: the insertion of a cell into the model of the graph library
  (not under \<^verbatim>\<open>src/\<close>). The spec's invariant is that an identifier is unique within a
  diagram. A cell whose identifier is free is stored under it. For an identifier in use
  the library draws new ones from its counter, \<^verbatim>\<open>nextId\<close>, until one is free; the loop
  ends within as many draws as the store has cells, which is the fuel here.
\<close>

fun createId :: "nat \<Rightarrow> (string, mxCell) fmap \<Rightarrow> nat \<Rightarrow> string \<times> nat" where
  "createId 0 cs n = (show_nat n, Suc n)"
| "createId (Suc fuel) cs n =
     (if fmlookup cs (show_nat n) = None then (show_nat n, Suc n)
      else createId fuel cs (Suc n))"

definition cellAdded :: "mxGraphModel \<Rightarrow> string \<Rightarrow> mxCell \<Rightarrow> mxGraphModel \<times> string" where
  "cellAdded g i c =
     (if fmlookup (cells g) i = None then (g\<lparr>cells := fmupd i c (cells g)\<rparr>, i)
      else
        (case createId (fcard (fmdom (cells g))) (cells g) (nextId g) of
           (j, n) \<Rightarrow> (g\<lparr>cells := fmupd j c (cells g), nextId := n\<rparr>, j)))"

text \<open>
  Modelled from the spec: \<^verbatim>\<open>graph.insertVertex(parent, id, value, x, y, width, height)\<close>
  of the graph library: a new vertex with that label, position and size and no style
  yet, placed under the parent (the implicit root when none is given). The result is
  the new store and the identifier the vertex got. The adjustments the library makes to
  the geometry of a container and of its children are not modelled.
\<close>

definition insertVertex ::
  "mxGraphModel \<Rightarrow> string option \<Rightarrow> string \<Rightarrow> jsval \<Rightarrow> jsval \<Rightarrow> jsval \<Rightarrow> jsval \<Rightarrow> jsval
     \<Rightarrow> mxGraphModel \<times> string" where
  "insertVertex g parent i val x y width height =
     cellAdded g i
       \<lparr>cell_value = val, cell_style = JUndefined,
        cell_geometry = Some (new_mxGeometry x y width height),
        cell_kind = Vertex, cell_parent = parent, cell_source = None, cell_target = None\<rparr>"

text \<open>
  Modelled from the spec: \<^verbatim>\<open>graph.insertEdge(parent, id, value, source, target)\<close> of the
  graph library: a new edge with that label, a relative geometry without points and no
  style yet, placed under the parent and connected to each terminal that is given. The
  library makes no check of its own on the terminals: one that is missing leaves that
  end of the edge unconnected.
\<close>

definition insertEdge ::
  "mxGraphModel \<Rightarrow> string option \<Rightarrow> string \<Rightarrow> jsval \<Rightarrow> string option \<Rightarrow> string option
     \<Rightarrow> mxGraphModel \<times> string" where
  "insertEdge g parent i val source target =
     cellAdded g i
       \<lparr>cell_value = val, cell_style = JUndefined,
        cell_geometry =
          Some ((new_mxGeometry JUndefined JUndefined JUndefined JUndefined)
                  \<lparr>geo_relative := True\<rparr>),
        cell_kind = Edge, cell_parent = parent, cell_source = source, cell_target = target\<rparr>"

text \<open>
  Modelled from the spec: \<^verbatim>\<open>graph.removeCells(cells)\<close> of the graph library (not under
  \<^verbatim>\<open>src/\<close>), in the words of section 4.5: each named node is removed and, with it, any
  edge touching a removed node; an identifier naming an edge removes only that edge; an
  identifier that names no cell removes nothing. The spec does not say what becomes of
  the cells placed inside a removed node, and the model leaves them in the store.
\<close>

definition removed_vertex :: "mxGraphModel \<Rightarrow> string option list \<Rightarrow> string \<Rightarrow> bool" where
  "removed_vertex g cs i \<longleftrightarrow>
     Some i \<in> set cs \<and>
     (case fmlookup (cells g) i of Some c \<Rightarrow> cell_kind c = Vertex | None \<Rightarrow> False)"

definition touches_removed :: "mxGraphModel \<Rightarrow> string option list \<Rightarrow> mxCell \<Rightarrow> bool" where
  "touches_removed g cs c \<longleftrightarrow>
     cell_kind c = Edge \<and>
     ((case cell_source c of Some s \<Rightarrow> removed_vertex g cs s | None \<Rightarrow> False) \<or>
      (case cell_target c of Some t \<Rightarrow> removed_vertex g cs t | None \<Rightarrow> False))"

definition removeCells :: "mxGraphModel \<Rightarrow> string option list \<Rightarrow> mxGraphModel" where
  "removeCells g cs =
     g\<lparr>cells :=
         fmfilter (\<lambda>i. Some i \<notin> set cs \<and>
                       (case fmlookup (cells g) i of
                          Some c \<Rightarrow> \<not> touches_removed g cs c
                        | None \<Rightarrow> True))
           (cells g)\<rparr>"

section \<open>Operations of the diagram\<close>

text \<open>
  The parameter object of \<^verbatim>\<open>addNode\<close> (Graph.ts 232): the destructured properties, an
  \<open>option\<close> where the destructuring has a default, and \<open>a_rest\<close> for the others
  (\<^verbatim>\<open>...rest\<close>). The coordinates are numbers, on which \<^verbatim>\<open>Number(x)\<close> changes nothing.
\<close>

record AddNodeParams =
  a_id :: string
  a_title :: jsval
  a_parent :: "string option"
  a_kind :: "string option"
  a_x :: "int option"
  a_y :: "int option"
  a_corner_radius :: jsval
  a_rest :: jsobj

text \<open>
  \<^verbatim>\<open>addNode\<close> (Graph.ts 232-242). The result is the new store and the identifier of the
  node (the source returns the node itself). \<^verbatim>\<open>Graph.Kinds[normalizedKind]\<close> is
  \<^verbatim>\<open>undefined\<close> for a name outside the catalog, and spreading it adds nothing.
\<close>

definition addNode :: "mxGraphModel \<Rightarrow> AddNodeParams \<Rightarrow> mxGraphModel \<times> string" where
  "addNode g p =
     (let parent = (case a_parent p of None \<Rightarrow> ''root'' | Some q \<Rightarrow> q);
          kind = (case a_kind p of None \<Rightarrow> ''Rectangle'' | Some k \<Rightarrow> k);
          x = (case a_x p of None \<Rightarrow> 10 | Some n \<Rightarrow> n);
          y = (case a_y p of None \<Rightarrow> 10 | Some n \<Rightarrow> n);
          normalizedKind = normalizeKind kind;
          styleOverrides = pickStyleOverrides (a_rest p);
          merged = js_spread (case map_of Kinds normalizedKind of None \<Rightarrow> [] | Some e \<Rightarrow> e)
                     (a_rest p);
          style = obj_get merged ''style'';
          width = obj_get merged ''width'';
          height = obj_get merged ''height'';
          to = (if parent = ''root'' then None
                else if getCell g parent = None then None else Some parent)
      in case insertVertex g to (a_id p) (a_title p) (JNum x) (JNum y) width height of
           (g', node) \<Rightarrow>
             (let adjustedStyle = adjustStyleByKind style normalizedKind (a_corner_radius p)
              in (setStyle g' node (mergeStyleOverrides adjustedStyle styleOverrides), node)))"






text \<open>\<^verbatim>\<open>EDGE_STYLES\<close> (Graph.ts 56-62).\<close>

definition EDGE_STYLES :: "(string \<times> string) list" where
  "EDGE_STYLES =
     [(''orthogonal'', ''orthogonalEdgeStyle''), (''elbow'', ''elbowEdgeStyle''),
      (''entity-relation'', ''entityRelationEdgeStyle''), (''segment'', ''segmentEdgeStyle''),
      (''straight'', ''none'')]"

text \<open>
  \<^verbatim>\<open>computeEffectiveLineStyle\<close> (Graph.ts 445-467). \<^verbatim>\<open>undirected\<close> is a boolean that may
  be missing; the source only tests its truth, so \<open>False\<close> stands for both. Deleting
  \<^verbatim>\<open>noEdgeStyle\<close> removes the property.
\<close>

definition computeEffectiveLineStyle :: "jsobj \<Rightarrow> bool \<Rightarrow> string option \<Rightarrow> jsobj" where
  "computeEffectiveLineStyle style undirected edgeStyle =
     (let base0 = [(''edgeStyle'', JStr ''none''), (''noEdgeStyle'', JNum 1),
                   (''orthogonal'', JNum 1), (''html'', JNum 1)];
          base =
            (case (case edgeStyle of None \<Rightarrow> None
                               | Some n \<Rightarrow> if n = [] then None else map_of EDGE_STYLES n) of
               None \<Rightarrow> base0
             | Some mxEdgeStyle \<Rightarrow>
                 if mxEdgeStyle = ''none''
                 then AList.update ''noEdgeStyle'' (JNum 1)
                        (AList.update ''edgeStyle'' (JStr ''none'') base0)
                 else AList.delete ''noEdgeStyle''
                        (AList.update ''edgeStyle'' (JStr mxEdgeStyle) base0));
          effective = js_spread base style
      in if undirected
         then AList.update ''endArrow'' (JStr ''none'')
                (AList.update ''startArrow'' (JStr ''none'')
                   (AList.update ''reverse'' JUndefined effective))
         else effective)"

text \<open>\<^verbatim>\<open>toStyleString\<close> (Graph.ts 111-116): a string is returned as it is, an object is
  written entry by entry; \<^verbatim>\<open>Object.entries\<close> throws on \<^verbatim>\<open>undefined\<close> and \<^verbatim>\<open>null\<close> and
  finds no entry in a number or a boolean.\<close>

definition toStyleString :: "jsval \<Rightarrow> js_error + string" where
  "toStyleString data =
     (case data of
        JStr s \<Rightarrow> Inr s
      | JObj ps \<Rightarrow> Inr (foldl style_entry [] ps)
      | JUndefined \<Rightarrow> Inl TypeError
      | JNull \<Rightarrow> Inl TypeError
      | _ \<Rightarrow> Inr [])"

text \<open>The parameter object of \<^verbatim>\<open>linkNodes\<close> (\<^verbatim>\<open>LinkNodesParams\<close>, Graph.ts 66-74); a
  style that is not given is \<^verbatim>\<open>{}\<close>.\<close>

record LinkNodesParams =
  l_from :: string
  l_to :: string
  l_title :: jsval
  l_style :: jsobj
  l_undirected :: bool
  l_waypoints :: "(int \<times> int) list option"
  l_edgeStyle :: "string option"

text \<open>The three candidate identifiers of an edge (Graph.ts 285-288);
  \<^verbatim>\<open>[from, to].sort()\<close> puts the smaller string first, in the lexicographic order of the
  characters' codes.\<close>

definition idDirect :: "string \<Rightarrow> string \<Rightarrow> string" where
  "idDirect from to = from @ ''-2-'' @ to"

definition idReverse :: "string \<Rightarrow> string \<Rightarrow> string" where
  "idReverse from to = to @ ''-2-'' @ from"

definition idCanonical :: "string \<Rightarrow> string \<Rightarrow> string" where
  "idCanonical from to = (if to < from then to @ ''-2-'' @ from else from @ ''-2-'' @ to)"

text \<open>\<^verbatim>\<open>getCell(idDirect) || getCell(idReverse) || getCell(idCanonical)\<close>, as the
  identifier of the cell found.\<close>

definition existing_edge :: "mxGraphModel \<Rightarrow> string \<Rightarrow> string \<Rightarrow> string option" where
  "existing_edge g from to =
     (if getCell g (idDirect from to) \<noteq> None then Some (idDirect from to)
      else if getCell g (idReverse from to) \<noteq> None then Some (idReverse from to)
      else if getCell g (idCanonical from to) \<noteq> None then Some (idCanonical from to)
      else None)"

text \<open>\<^verbatim>\<open>const idToUse = undirected ? idCanonical : idDirect\<close> (Graph.ts 299).\<close>

definition idToUse :: "LinkNodesParams \<Rightarrow> string" where
  "idToUse p =
     (if l_undirected p then idCanonical (l_from p) (l_to p) else idDirect (l_from p) (l_to p))"

text \<open>The waypoints of \<^verbatim>\<open>linkNodes\<close> (Graph.ts 306-313): a non-empty list replaces the
  points of the edge's geometry, if it has one.\<close>

definition apply_waypoints :: "mxGraphModel \<Rightarrow> string \<Rightarrow> (int \<times> int) list option \<Rightarrow> mxGraphModel" where
  "apply_waypoints g link waypoints =
     (case waypoints of
        None \<Rightarrow> g
      | Some wps \<Rightarrow>
          if wps = [] then g
          else (case (case getCell g link of None \<Rightarrow> None | Some c \<Rightarrow> cell_geometry c) of
                  None \<Rightarrow> g
                | Some geo \<Rightarrow> setGeometry g link (geo\<lparr>geo_points := Some wps\<rparr>)))"

text \<open>
  \<^verbatim>\<open>linkNodes\<close> (Graph.ts 280-316). The result is the new store and the identifier of the
  edge (\<^verbatim>\<open>link.getId()\<close>). The two endpoints are looked up and handed to \<^verbatim>\<open>insertEdge\<close>
  as they were found.
\<close>

definition linkNodes :: "mxGraphModel \<Rightarrow> LinkNodesParams \<Rightarrow> js_error + mxGraphModel \<times> string" where
  "linkNodes g p =
     (let fromNode = (if getCell g (l_from p) = None then None else Some (l_from p));
          toNode = (if getCell g (l_to p) = None then None else Some (l_to p));
          effective = computeEffectiveLineStyle (l_style p) (l_undirected p) (l_edgeStyle p);
          (g1, link) =
            (case existing_edge g (l_from p) (l_to p) of
               Some i \<Rightarrow>
                 (if l_title p \<noteq> JUndefined then setValue g i (l_title p) else g, i)
             | None \<Rightarrow>
                 insertEdge g None (idToUse p)
                   (if truthy (l_title p) then l_title p else JNull) fromNode toNode)
      in case toStyleString (JObj effective) of
           Inl err \<Rightarrow> Inl err
         | Inr s \<Rightarrow> Inr (apply_waypoints (setStyle g1 link (JStr s)) link (l_waypoints p), link))"

text \<open>\<^verbatim>\<open>removeNodes\<close> (Graph.ts 318-322): the identifiers are looked up and the cells found
  are handed to \<^verbatim>\<open>removeCells\<close>, \<^verbatim>\<open>undefined\<close> in the place of one that is not found.\<close>

definition removeNodes :: "mxGraphModel \<Rightarrow> string list \<Rightarrow> mxGraphModel" where
  "removeNodes g ids =
     removeCells g (map (\<lambda>i. if getCell g i = None then None else Some i) ids)"

text \<open>The model of a new \<^verbatim>\<open>Graph\<close>: no node, no edge; the library's counter stands after
  the two structural cells.\<close>

definition new_Graph :: mxGraphModel where
  "new_Graph = \<lparr>cells = fmempty, nextId = 2\<rparr>"

section \<open>Layout runner\<close>

text \<open>
  The layout algorithms belong to the graph library; \<^verbatim>\<open>applyLayout\<close> only chooses one
  and runs it on the root (\<^verbatim>\<open>runLayout\<close>, Graph.ts 337-340). A layout is named here by
  its class, the hierarchical one with the orientation it is constructed with
  (\<^verbatim>\<open>DIR_TO_MX_DIRECTION[options.direction]\<close>, \<^verbatim>\<open>undefined\<close> for a direction that is not
  given). What running a layout does to the store is a parameter of \<open>applyLayout\<close>.
\<close>

datatype mx_direction = DIRECTION_NORTH | DIRECTION_WEST

datatype mx_layout =
    mxHierarchicalLayout "mx_direction option"
  | mxCircleLayout
  | mxFastOrganicLayout
  | mxCompactTreeLayout
  | mxRadialTreeLayout
  | mxPartitionLayout
  | mxStackLayout

definition LAYOUT_HIERARCHICAL :: string where "LAYOUT_HIERARCHICAL = ''hierarchical''"

definition LAYOUT_CIRCLE :: string where "LAYOUT_CIRCLE = ''circle''"

definition LAYOUT_ORGANIC :: string where "LAYOUT_ORGANIC = ''organic''"

definition LAYOUT_COMPACT_TREE :: string where "LAYOUT_COMPACT_TREE = ''compact-tree''"

definition LAYOUT_RADIAL_TREE :: string where "LAYOUT_RADIAL_TREE = ''radial-tree''"

definition LAYOUT_PARTITION :: string where "LAYOUT_PARTITION = ''partition''"

definition LAYOUT_STACK :: string where "LAYOUT_STACK = ''stack''"

definition DIRECTION_TOP_DOWN :: string where "DIRECTION_TOP_DOWN = ''top-down''"

definition DIRECTION_LEFT_RIGHT :: string where "DIRECTION_LEFT_RIGHT = ''left-right''"

definition DIR_TO_MX_DIRECTION :: "jsval \<Rightarrow> mx_direction option" where
  "DIR_TO_MX_DIRECTION d =
     (if d = JStr DIRECTION_TOP_DOWN then Some DIRECTION_NORTH
      else if d = JStr DIRECTION_LEFT_RIGHT then Some DIRECTION_WEST
      else None)"

text \<open>\<^verbatim>\<open>supportedAlgorithms.join(', ')\<close>.\<close>

fun js_join :: "string \<Rightarrow> string list \<Rightarrow> string" where
  "js_join sep [] = []"
| "js_join sep [x] = x"
| "js_join sep (x # y # ys) = x @ sep @ js_join sep (y # ys)"

definition supportedAlgorithms :: "string list" where
  "supportedAlgorithms =
     [LAYOUT_HIERARCHICAL, LAYOUT_CIRCLE, LAYOUT_ORGANIC, LAYOUT_COMPACT_TREE,
      LAYOUT_RADIAL_TREE, LAYOUT_PARTITION, LAYOUT_STACK]"

text \<open>
  \<^verbatim>\<open>applyLayout\<close> (Graph.ts 366-409): \<open>direction\<close> is \<^verbatim>\<open>options.direction\<close>,
  \<^verbatim>\<open>undefined\<close> when no options or no direction are given.
\<close>

definition applyLayout ::
  "(mx_layout \<Rightarrow> mxGraphModel \<Rightarrow> mxGraphModel) \<Rightarrow> mxGraphModel \<Rightarrow> string \<Rightarrow> jsval
     \<Rightarrow> js_error + mxGraphModel" where
  "applyLayout runLayout g algorithm direction =
     (if algorithm = LAYOUT_HIERARCHICAL then
        if direction \<noteq> JUndefined \<and> direction \<noteq> JStr DIRECTION_TOP_DOWN
           \<and> direction \<noteq> JStr DIRECTION_LEFT_RIGHT
        then Inl (Error (''Invalid hierarchical direction: '' @ js_String direction
                         @ ''. Allowed: '' @ DIRECTION_TOP_DOWN @ '', '' @ DIRECTION_LEFT_RIGHT))
        else Inr (runLayout (mxHierarchicalLayout (DIR_TO_MX_DIRECTION direction)) g)
      else if algorithm = LAYOUT_CIRCLE then Inr (runLayout mxCircleLayout g)
      else if algorithm = LAYOUT_ORGANIC then Inr (runLayout mxFastOrganicLayout g)
      else if algorithm = LAYOUT_COMPACT_TREE then Inr (runLayout mxCompactTreeLayout g)
      else if algorithm = LAYOUT_RADIAL_TREE then Inr (runLayout mxRadialTreeLayout g)
      else if algorithm = LAYOUT_PARTITION then Inr (runLayout mxPartitionLayout g)
      else if algorithm = LAYOUT_STACK then Inr (runLayout mxStackLayout g)
      else Inl (Error (''Unsupported layout algorithm: '' @ algorithm @ ''. Supported: ''
                       @ js_join '', '' supportedAlgorithms)))"

text \<open>A message names a word when the word stands somewhere in it.\<close>

primrec names :: "string \<Rightarrow> string \<Rightarrow> bool" where
  "names [] w \<longleftrightarrow> w = []"
| "names (c # cs) w \<longleftrightarrow> take (length w) (c # cs) = w \<or> names cs w"

section \<open>The diagram of the scenarios\<close>

text \<open>
  The spec's scenarios work on a rectangle \<^verbatim>\<open>svc\<close> at (100,150) and a second node \<^verbatim>\<open>db\<close>;
  both are added to a new diagram with no overrides.
\<close>

definition svc_node :: AddNodeParams where
  "svc_node =
     \<lparr>a_id = ''svc'', a_title = JStr ''svc'', a_parent = None, a_kind = Some ''Rectangle'',
      a_x = Some 100, a_y = Some 150, a_corner_radius = JUndefined, a_rest = []\<rparr>"

definition db_node :: AddNodeParams where
  "db_node =
     \<lparr>a_id = ''db'', a_title = JStr ''db'', a_parent = None, a_kind = Some ''Cylinder'',
      a_x = Some 300, a_y = Some 150, a_corner_radius = JUndefined, a_rest = []\<rparr>"

definition svc_db :: mxGraphModel where
  "svc_db = fst (addNode (fst (addNode new_Graph svc_node)) db_node)"

text \<open>A request to link \<open>from\<close> to \<open>to\<close> with a title and nothing else.\<close>

definition link_request :: "string \<Rightarrow> string \<Rightarrow> jsval \<Rightarrow> bool \<Rightarrow> LinkNodesParams" where
  "link_request from to title undirected =
     \<lparr>l_from = from, l_to = to, l_title = title, l_style = [], l_undirected = undirected,
      l_waypoints = None, l_edgeStyle = None\<rparr>"

text \<open>A vertex with a label, a style and an absolute geometry, under the root.\<close>

definition vertex_at :: "string \<Rightarrow> jsval \<Rightarrow> int \<Rightarrow> int \<Rightarrow> int \<Rightarrow> int \<Rightarrow> mxCell" where
  "vertex_at title style x y w h =
     \<lparr>cell_value = JStr title, cell_style = style,
      cell_geometry =
        Some \<lparr>geo_x = JNum x, geo_y = JNum y, geo_width = JNum w, geo_height = JNum h,
              geo_relative = False, geo_points = None\<rparr>,
      cell_kind = Vertex, cell_parent = None, cell_source = None, cell_target = None\<rparr>"

text \<open>An edge as \<^verbatim>\<open>linkNodes\<close> stores it for a request without style of its own.\<close>

definition edge_between :: "string \<Rightarrow> string \<Rightarrow> jsval \<Rightarrow> mxCell" where
  "edge_between source target label =
     \<lparr>cell_value = label,
      cell_style = JStr ''edgeStyle=none;noEdgeStyle=1;orthogonal=1;html=1;'',
      cell_geometry =
        Some \<lparr>geo_x = JNum 0, geo_y = JNum 0, geo_width = JNum 0, geo_height = JNum 0,
              geo_relative = True, geo_points = None\<rparr>,
      cell_kind = Edge, cell_parent = None, cell_source = Some source,
      cell_target = Some target\<rparr>"

text \<open>
  A document that holds an edge in each direction between \<^verbatim>\<open>svc\<close> and \<^verbatim>\<open>db\<close>, each under
  its direct identifier, as \<^verbatim>\<open>Graph.fromXML\<close> decodes it.
\<close>

definition svc_db_both_ways :: mxGraphModel where
  "svc_db_both_ways =
     svc_db\<lparr>cells :=
       fmupd ''db-2-svc'' (edge_between ''db'' ''svc'' (JStr ''replies''))
         (fmupd ''svc-2-db'' (edge_between ''svc'' ''db'' (JStr ''queries'')) (cells svc_db))\<rparr>"





text \<open>The value a style gives to a key, read with the engine's own parser
  (\<^verbatim>\<open>undefined\<close> when the style does not hold the key).\<close>

definition style_attr :: "jsval \<Rightarrow> string \<Rightarrow> jsval" where
  "style_attr style key = obj_get (parseStyle style) key"

text \<open>A style mapping the format can carry and whose keys are not empty.\<close>

definition keyed_style :: "jsobj \<Rightarrow> bool" where
  "keyed_style ob \<longleftrightarrow> plain_style ob \<and> [] \<notin> fst ` set ob"

section \<open>Lemmas on the style codec\<close>

lemma js_split_nonempty [simp]: "js_split c s \<noteq> []"
  by (induction s) (simp_all split: list.splits)

lemma js_split_plain: "c \<notin> set t \<Longrightarrow> js_split c t = [t]"
  by (induction t) auto

lemma js_split_append:
  "c \<notin> set t \<Longrightarrow> js_split c (t @ c # rest) = t # js_split c rest"
  by (induction t) auto

lemma stringify_acc: "foldl style_entry acc m = acc @ foldl style_entry [] m"
proof (induction m arbitrary: acc)
  case Nil
  show ?case by simp
next
  case (Cons e m)
  have "foldl style_entry acc (e # m) = foldl style_entry (style_entry acc e) m" by simp
  also have "\<dots> = style_entry acc e @ foldl style_entry [] m" by (rule Cons.IH)
  also have "style_entry acc e = acc @ style_entry [] e"
    by (simp add: style_entry_def split: prod.splits)
  finally show ?case
    using Cons.IH [of "style_entry [] e"] by simp
qed

lemma stringify_Cons:
  "stringifyStyle (e # m) = style_entry [] e @ stringifyStyle m"
  unfolding stringifyStyle_def using stringify_acc [of "style_entry [] e" m] by simp

lemma style_entry_segment:
  "snd e \<noteq> JUndefined \<Longrightarrow> style_entry [] e = segment e @ '';''"
  by (cases e) (simp add: style_entry_def segment_def)

lemma segment_no_semi: "text_entry e \<Longrightarrow> CHR '';'' \<notin> set (segment e)"
  by (cases e) (auto simp: text_entry_def segment_def plain_def)

lemma split_stringify:
  "\<forall>e \<in> set m. text_entry e \<Longrightarrow>
   js_split CHR '';'' (stringifyStyle m) = map segment m @ [[]]"
proof (induction m)
  case Nil
  show ?case by (simp add: stringifyStyle_def)
next
  case (Cons e m)
  then have e: "text_entry e" and m: "\<forall>e \<in> set m. text_entry e" by simp_all
  from e have "snd e \<noteq> JUndefined" by (auto simp: text_entry_def)
  then have "stringifyStyle (e # m) = segment e @ CHR '';'' # stringifyStyle m"
    by (simp add: stringify_Cons style_entry_segment)
  then show ?case
    using js_split_append [OF segment_no_semi [OF e]] Cons.IH [OF m] by simp
qed

lemma parse_entry_segment:
  assumes "text_entry e"
  shows "parse_entry acc (segment e) = obj_set (fst e) (snd e) acc"
proof -
  obtain k s where e: "e = (k, JStr s)" and k: "plain k" and s: "plain s"
    using assms by (cases e) (auto simp: text_entry_def)
  show ?thesis
  proof (cases "s = []")
    case True
    with k show ?thesis
      by (simp add: e segment_def parse_entry_def js_split_plain plain_def)
  next
    case False
    with k s show ?thesis
      by (simp add: e segment_def parse_entry_def js_split_plain js_split_append plain_def)
  qed
qed

lemma foldl_parse_segments:
  "\<forall>e \<in> set m. text_entry e \<Longrightarrow>
   foldl parse_entry acc (map segment m) = foldl (\<lambda>a e. obj_set (fst e) (snd e) a) acc m"
  by (induction m arbitrary: acc) (simp_all add: parse_entry_segment)

lemma update_fresh: "k \<notin> fst ` set ob \<Longrightarrow> AList.update k v ob = ob @ [(k, v)]"
  by (induction ob) auto

lemma foldl_obj_set_fresh:
  "distinct (map fst (acc @ m)) \<Longrightarrow> \<forall>e \<in> set m. fst e \<noteq> ''__proto__'' \<Longrightarrow>
   foldl (\<lambda>a e. obj_set (fst e) (snd e) a) acc m = acc @ m"
proof (induction m arbitrary: acc)
  case Nil
  show ?case by simp
next
  case (Cons e m)
  have "obj_set (fst e) (snd e) acc = acc @ [e]"
    using Cons.prems by (simp add: obj_set_def update_fresh)
  moreover have "distinct (map fst ((acc @ [e]) @ m))" using Cons.prems(1) by simp
  ultimately show ?case using Cons.IH [of "acc @ [e]"] Cons.prems(2) by simp
qed

lemma segment_empty_iff:
  "text_entry e \<Longrightarrow> segment e = [] \<longleftrightarrow> e = ([], JStr [])"
  by (cases e) (auto simp: text_entry_def segment_def)

lemma plain_style_entries: "plain_style m \<Longrightarrow> \<forall>e \<in> set m. text_entry e"
  by (auto simp: plain_style_def text_entry_def)

lemma plain_style_filter: "plain_style m \<Longrightarrow> plain_style (filter P m)"
  by (auto simp: plain_style_def distinct_map_filter)

lemma parse_stringify:
  assumes "plain_style m"
  shows "parseStyle (JStr (stringifyStyle m)) = filter (\<lambda>e. e \<noteq> ([], JStr [])) m"
proof -
  let ?m' = "filter (\<lambda>e. e \<noteq> ([], JStr [])) m"
  have te: "\<forall>e \<in> set m. text_entry e" using assms by (rule plain_style_entries)
  have "filter (\<lambda>seg. seg \<noteq> []) (js_split CHR '';'' (stringifyStyle m))
        = filter (\<lambda>seg. seg \<noteq> []) (map segment m)"
    by (simp add: split_stringify [OF te])
  also have "\<dots> = map segment ?m'"
    using te by (induction m) (auto simp: segment_empty_iff)
  finally have "parseStyle (JStr (stringifyStyle m)) = foldl parse_entry [] (map segment ?m')"
    by (simp add: parseStyle_def)
  also have "\<dots> = foldl (\<lambda>a e. obj_set (fst e) (snd e) a) [] ?m'"
    using te by (intro foldl_parse_segments) simp
  also have "\<dots> = [] @ ?m'"
    using assms by (intro foldl_obj_set_fresh) (auto simp: plain_style_def distinct_map_filter)
  finally show ?thesis by simp
qed

text \<open>
  C2 (amended). A style mapping with distinct keys, none of them \<^verbatim>\<open>__proto__\<close>, whose keys
  and values are strings free of \<^verbatim>\<open>;\<close> and \<^verbatim>\<open>=\<close>, and with no entry that has both an
  empty key and an empty value, is recovered by parsing what \<^verbatim>\<open>stringifyStyle\<close> wrote:
  the same key/value pairs.
\<close>

theorem parse_stringify_roundtrip:
  assumes "plain_style m" and "([], JStr []) \<notin> set m"
  shows "set (parseStyle (JStr (stringifyStyle m))) = set m"
proof -
  have "filter (\<lambda>e. e \<noteq> ([], JStr [])) m = m"
    using assms(2) by (induction m) auto
  then show ?thesis using parse_stringify [OF assms(1)] by simp
qed

theorem parse_stringify_roundtrip_witness:
  "plain_style [(''rounded'', JStr ''1''), (''whiteSpace'', JStr ''wrap''), (''ellipse'', JStr [])]
   \<and> set (parseStyle (JStr (stringifyStyle
         [(''rounded'', JStr ''1''), (''whiteSpace'', JStr ''wrap''), (''ellipse'', JStr [])])))
     = set [(''rounded'', JStr ''1''), (''whiteSpace'', JStr ''wrap''), (''ellipse'', JStr [])]"
proof -
  let ?m = "[(''rounded'', JStr ''1''), (''whiteSpace'', JStr ''wrap''), (''ellipse'', JStr [])]"
  have p: "plain_style ?m" by (simp add: plain_style_def plain_def)
  have n: "([], JStr []) \<notin> set ?m" by simp
  show ?thesis using p parse_stringify_roundtrip [OF p n] by simp
qed

text \<open>
  C2 as stated fails on defined values the format cannot carry: the number \<open>0\<close> is written
  as a bare key and read back as the empty string, and a value holding \<^verbatim>\<open>;\<close> is read
  back as two entries.
\<close>

theorem parse_stringify_counterexample:
  "set (parseStyle (JStr (stringifyStyle [(''opacity'', JNum 0)]))) \<noteq> set [(''opacity'', JNum 0)]
   \<and> set (parseStyle (JStr (stringifyStyle [(''fontFamily'', JStr ''a;b'')])))
       \<noteq> set [(''fontFamily'', JStr ''a;b'')]"
  by (simp add: parseStyle_def stringifyStyle_def style_entry_def parse_entry_def obj_set_def)

section \<open>Layout runner: claims\<close>

lemma names_append: "names b w \<Longrightarrow> names (a @ b) w"
  by (induction a) simp_all

lemmas layout_names = LAYOUT_HIERARCHICAL_def LAYOUT_CIRCLE_def LAYOUT_ORGANIC_def
  LAYOUT_COMPACT_TREE_def LAYOUT_RADIAL_TREE_def LAYOUT_PARTITION_def LAYOUT_STACK_def

lemma supported_list:
  "js_join '', '' supportedAlgorithms
     = ''hierarchical, circle, organic, compact-tree, radial-tree, partition, stack''"
  by (simp add: supportedAlgorithms_def layout_names)

lemma supported_named:
  "w \<in> set supportedAlgorithms \<Longrightarrow>
   names ''hierarchical, circle, organic, compact-tree, radial-tree, partition, stack'' w"
  unfolding supportedAlgorithms_def layout_names
  by (elim set_ConsD [elim_format] disjE) simp_all

lemma applyLayout_other:
  assumes "algorithm \<in> set supportedAlgorithms" and "algorithm \<noteq> ''hierarchical''"
  shows "\<exists>layout. \<forall>direction. applyLayout runLayout g algorithm direction = Inr (runLayout layout g)"
  using assms unfolding supportedAlgorithms_def layout_names
  by (elim set_ConsD [elim_format] disjE) (simp_all add: applyLayout_def layout_names, blast+)

text \<open>
  C7. An algorithm name outside the seven supported ones makes \<^verbatim>\<open>applyLayout\<close> throw an
  error whose message names each of the seven; the hierarchical algorithm with a
  direction that is given and is neither \<^verbatim>\<open>top-down\<close> nor \<^verbatim>\<open>left-right\<close> makes it throw an
  error naming these two; for any other supported algorithm a direction is accepted and
  changes nothing: the same layout is run as without one.
\<close>

theorem applyLayout_errors:
  "(algorithm \<notin> set supportedAlgorithms \<longrightarrow>
      (\<exists>msg. applyLayout runLayout g algorithm direction = Inl (Error msg)
         \<and> msg = ''Unsupported layout algorithm: '' @ algorithm
                 @ ''. Supported: hierarchical, circle, organic, compact-tree, radial-tree, partition, stack''
         \<and> (\<forall>w \<in> set supportedAlgorithms. names msg w)))
   \<and> (direction \<noteq> JUndefined \<and> direction \<noteq> JStr ''top-down'' \<and> direction \<noteq> JStr ''left-right'' \<longrightarrow>
      (\<exists>msg. applyLayout runLayout g ''hierarchical'' direction = Inl (Error msg)
         \<and> msg = ''Invalid hierarchical direction: '' @ js_String direction
                 @ ''. Allowed: top-down, left-right''
         \<and> names msg ''top-down'' \<and> names msg ''left-right''))
   \<and> (algorithm \<in> set supportedAlgorithms \<and> algorithm \<noteq> ''hierarchical'' \<longrightarrow>
      (\<exists>layout. applyLayout runLayout g algorithm direction = Inr (runLayout layout g)
         \<and> applyLayout runLayout g algorithm JUndefined = Inr (runLayout layout g)))"
proof (intro conjI impI)
  assume a: "algorithm \<notin> set supportedAlgorithms"
  let ?tail = "''hierarchical, circle, organic, compact-tree, radial-tree, partition, stack''"
  let ?msg = "''Unsupported layout algorithm: '' @ algorithm @ ''. Supported: '' @ ?tail"
  from a have "applyLayout runLayout g algorithm direction = Inl (Error ?msg)"
    by (simp add: applyLayout_def supported_list) (simp add: supportedAlgorithms_def)
  moreover have "\<forall>w \<in> set supportedAlgorithms. names ?msg w"
  proof
    fix w assume "w \<in> set supportedAlgorithms"
    then have "names ?tail w" by (rule supported_named)
    then show "names ?msg w"
      using names_append [of ?tail w "''Unsupported layout algorithm: '' @ algorithm @ ''. Supported: ''"]
      by (simp del: names.simps)
  qed
  ultimately show "\<exists>msg. applyLayout runLayout g algorithm direction = Inl (Error msg)
         \<and> msg = ''Unsupported layout algorithm: '' @ algorithm
                 @ ''. Supported: hierarchical, circle, organic, compact-tree, radial-tree, partition, stack''
         \<and> (\<forall>w \<in> set supportedAlgorithms. names msg w)"
    by simp
next
  assume d: "direction \<noteq> JUndefined \<and> direction \<noteq> JStr ''top-down'' \<and> direction \<noteq> JStr ''left-right''"
  let ?msg = "''Invalid hierarchical direction: '' @ js_String direction @ ''. Allowed: top-down, left-right''"
  from d have "applyLayout runLayout g ''hierarchical'' direction = Inl (Error ?msg)"
    by (simp add: applyLayout_def LAYOUT_HIERARCHICAL_def DIRECTION_TOP_DOWN_def DIRECTION_LEFT_RIGHT_def)
  moreover have "names ?msg ''top-down''"
    using names_append [of "''. Allowed: top-down, left-right''" "''top-down''"
        "''Invalid hierarchical direction: '' @ js_String direction"]
    by (simp del: names.simps) simp
  moreover have "names ?msg ''left-right''"
    using names_append [of "''. Allowed: top-down, left-right''" "''left-right''"
        "''Invalid hierarchical direction: '' @ js_String direction"]
    by (simp del: names.simps) simp
  ultimately show "\<exists>msg. applyLayout runLayout g ''hierarchical'' direction = Inl (Error msg)
         \<and> msg = ''Invalid hierarchical direction: '' @ js_String direction
                 @ ''. Allowed: top-down, left-right''
         \<and> names msg ''top-down'' \<and> names msg ''left-right''"
    by simp
next
  assume "algorithm \<in> set supportedAlgorithms \<and> algorithm \<noteq> ''hierarchical''"
  then show "\<exists>layout. applyLayout runLayout g algorithm direction = Inr (runLayout layout g)
         \<and> applyLayout runLayout g algorithm JUndefined = Inr (runLayout layout g)"
    using applyLayout_other [of algorithm runLayout g] by auto
qed

theorem applyLayout_errors_witness:
  "applyLayout (\<lambda>layout g. g) new_Graph ''foo'' (JStr ''diagonal'')
     = Inl (Error (''Unsupported layout algorithm: foo. Supported: hierarchical, circle, ''
                   @ ''organic, compact-tree, radial-tree, partition, stack''))
   \<and> applyLayout (\<lambda>layout g. g) new_Graph ''hierarchical'' (JStr ''diagonal'')
     = Inl (Error ''Invalid hierarchical direction: diagonal. Allowed: top-down, left-right'')
   \<and> applyLayout (\<lambda>layout g. g) new_Graph ''circle'' (JStr ''left-right'') = Inr new_Graph
   \<and> applyLayout (\<lambda>layout g. g) new_Graph ''circle'' JUndefined = Inr new_Graph"
  using applyLayout_errors [where algorithm = "''foo''" and runLayout = "\<lambda>layout g. g"
      and g = new_Graph and direction = "JStr ''diagonal''"]
    applyLayout_errors [where algorithm = "''circle''" and runLayout = "\<lambda>layout g. g"
      and g = new_Graph and direction = "JStr ''left-right''"]
  by (simp add: supportedAlgorithms_def layout_names del: names.simps)

section \<open>The cell store: lemmas\<close>

lemma getCell_update_cell:
  "getCell (update_cell g i f) j = (if j = i then map_option f (getCell g i) else getCell g j)"
  by (simp add: getCell_def update_cell_def split: option.splits)

lemma fmdom_update_cell: "fmdom (cells (update_cell g i f)) = fmdom (cells g)"
  by (auto simp: update_cell_def fmlookup_dom_iff split: option.splits)

lemma cellAdded_fresh:
  "getCell g i = None \<Longrightarrow> cellAdded g i c = (g\<lparr>cells := fmupd i c (cells g)\<rparr>, i)"
  by (simp add: cellAdded_def getCell_def)

lemma toStyleString_object: "toStyleString (JObj ps) = Inr (stringifyStyle ps)"
  by (simp add: toStyleString_def stringifyStyle_def)

lemma getCell_apply_waypoints_other:
  "j \<noteq> i \<Longrightarrow> getCell (apply_waypoints g i w) j = getCell g j"
  by (simp add: apply_waypoints_def setGeometry_def getCell_update_cell split: option.splits)

lemma getCell_apply_waypoints_same:
  "getCell (apply_waypoints g i w) i =
     map_option (\<lambda>c. if w = None \<or> w = Some [] \<or> cell_geometry c = None then c
                      else c\<lparr>cell_geometry := Some ((the (cell_geometry c))\<lparr>geo_points := w\<rparr>)\<rparr>)
       (getCell g i)"
  by (cases "getCell g i")
     (auto simp: apply_waypoints_def setGeometry_def getCell_update_cell split: option.splits)

lemma fmdom_apply_waypoints: "fmdom (cells (apply_waypoints g i w)) = fmdom (cells g)"
  by (simp add: apply_waypoints_def setGeometry_def fmdom_update_cell split: option.splits)

lemma idCanonical_min_max: "idCanonical a b = min a b @ ''-2-'' @ max a b"
  by (auto simp: idCanonical_def min_def max_def)

lemma svc_db_cells:
  "svc_db =
     \<lparr>cells =
        fmupd ''db'' (vertex_at ''db''
            (JStr ''shape=cylinder3;whiteSpace=wrap;html=1;boundedLbl=1;backgroundOutline=1;size=15;'')
            300 150 60 80)
          (fmupd ''svc'' (vertex_at ''svc''
              (JObj [(''rounded'', JNum 1), (''whiteSpace'', JStr ''wrap''), (''html'', JNum 1)])
              100 150 120 60)
             fmempty),
      nextId = 2\<rparr>"
  by code_simp

section \<open>Linking nodes: claims\<close>

text \<open>What \<^verbatim>\<open>linkNodes\<close> does when it finds no cell under the three candidate
  identifiers: one edge is stored, under \<open>idToUse\<close>.\<close>

lemma linkNodes_insert:
  assumes "existing_edge g (l_from p) (l_to p) = None"
  shows "\<exists>geo. linkNodes g p =
    Inr (g\<lparr>cells :=
             fmupd (idToUse p)
               \<lparr>cell_value = (if truthy (l_title p) then l_title p else JNull),
                cell_style = JStr (stringifyStyle
                  (computeEffectiveLineStyle (l_style p) (l_undirected p) (l_edgeStyle p))),
                cell_geometry = Some geo, cell_kind = Edge, cell_parent = None,
                cell_source = (if getCell g (l_from p) = None then None else Some (l_from p)),
                cell_target = (if getCell g (l_to p) = None then None else Some (l_to p))\<rparr>
               (cells g)\<rparr>,
         idToUse p)"
proof -
  from assms have "getCell g (idDirect (l_from p) (l_to p)) = None"
    and "getCell g (idCanonical (l_from p) (l_to p)) = None"
    by (simp_all add: existing_edge_def split: if_splits)
  then have fresh: "getCell g (idToUse p) = None" by (simp add: idToUse_def)
  show ?thesis
    using assms fresh
    by (cases "l_waypoints p")
       (auto simp: linkNodes_def insertEdge_def cellAdded_fresh toStyleString_object
         setStyle_def update_cell_def apply_waypoints_def setGeometry_def getCell_def Let_def
         split: option.splits)
qed

text \<open>
  C3. When the diagram holds no cell under the direct, the reverse or the canonical
  identifier of the pair, \<^verbatim>\<open>linkNodes\<close> creates one new edge. With \<^verbatim>\<open>undirected\<close> set its
  identifier is \<open>min-2-max\<close>, the two node identifiers in lexicographic order; otherwise
  it is the direct form \<open>from-2-to\<close>.
\<close>

theorem linkNodes_new_edge_id:
  assumes "getCell g (idDirect (l_from p) (l_to p)) = None"
    and "getCell g (idReverse (l_from p) (l_to p)) = None"
    and "getCell g (idCanonical (l_from p) (l_to p)) = None"
  shows "\<exists>g' i c. linkNodes g p = Inr (g', i)
    \<and> i = (if l_undirected p then min (l_from p) (l_to p) @ ''-2-'' @ max (l_from p) (l_to p)
           else l_from p @ ''-2-'' @ l_to p)
    \<and> getCell g i = None \<and> getCell g' i = Some c \<and> cell_kind c = Edge
    \<and> cell_source c = (if getCell g (l_from p) = None then None else Some (l_from p))
    \<and> cell_target c = (if getCell g (l_to p) = None then None else Some (l_to p))
    \<and> fmdom (cells g') = finsert i (fmdom (cells g))
    \<and> (\<forall>j. j \<noteq> i \<longrightarrow> getCell g' j = getCell g j)"
proof -
  have none: "existing_edge g (l_from p) (l_to p) = None"
    using assms by (simp add: existing_edge_def)
  have i: "idToUse p = (if l_undirected p
      then min (l_from p) (l_to p) @ ''-2-'' @ max (l_from p) (l_to p)
      else l_from p @ ''-2-'' @ l_to p)"
    by (simp add: idToUse_def idCanonical_min_max idDirect_def)
  have fresh: "getCell g (idToUse p) = None"
    using assms by (simp add: idToUse_def)
  from linkNodes_insert [OF none] obtain g' c where
    l: "linkNodes g p = Inr (g', idToUse p)"
    and g': "g' = g\<lparr>cells := fmupd (idToUse p) c (cells g)\<rparr>"
    and c: "cell_kind c = Edge"
      "cell_source c = (if getCell g (l_from p) = None then None else Some (l_from p))"
      "cell_target c = (if getCell g (l_to p) = None then None else Some (l_to p))"
    by force
  have "getCell g' (idToUse p) = Some c"
    and "fmdom (cells g') = finsert (idToUse p) (fmdom (cells g))"
    and "\<forall>j. j \<noteq> idToUse p \<longrightarrow> getCell g' j = getCell g j"
    by (simp_all add: g' getCell_def)
  with l c fresh show ?thesis
    unfolding i by blast
qed

theorem linkNodes_new_edge_id_witness:
  "getCell svc_db (idDirect ''svc'' ''db'') = None
   \<and> getCell svc_db (idReverse ''svc'' ''db'') = None
   \<and> getCell svc_db (idCanonical ''svc'' ''db'') = None
   \<and> (\<exists>g' c. linkNodes svc_db (link_request ''svc'' ''db'' (JStr ''queries'') True)
                = Inr (g', ''db-2-svc'')
        \<and> getCell g' ''db-2-svc'' = Some c \<and> cell_kind c = Edge
        \<and> cell_source c = Some ''svc'' \<and> cell_target c = Some ''db'')
   \<and> (\<exists>g'. linkNodes svc_db (link_request ''svc'' ''db'' (JStr ''queries'') False)
                = Inr (g', ''svc-2-db''))"
proof -
  have d: "getCell svc_db (idDirect ''svc'' ''db'') = None"
    and r: "getCell svc_db (idReverse ''svc'' ''db'') = None"
    and c: "getCell svc_db (idCanonical ''svc'' ''db'') = None"
    by (simp_all add: svc_db_cells getCell_def idDirect_def idReverse_def idCanonical_def)
  have nodes: "getCell svc_db ''svc'' \<noteq> None" "getCell svc_db ''db'' \<noteq> None"
    by (simp_all add: svc_db_cells getCell_def)
  have u: "l_undirected (link_request ''svc'' ''db'' (JStr ''queries'') True)"
    and f: "l_from (link_request ''svc'' ''db'' (JStr ''queries'') b) = ''svc''"
    and t: "l_to (link_request ''svc'' ''db'' (JStr ''queries'') b) = ''db''"
    and n: "\<not> l_undirected (link_request ''svc'' ''db'' (JStr ''queries'') False)" for b
    by (simp_all add: link_request_def)
  have m: "min ''svc'' ''db'' = ''db''" "max ''svc'' ''db'' = ''svc''"
    by (simp_all add: min_def max_def)
  from linkNodes_new_edge_id [of svc_db "link_request ''svc'' ''db'' (JStr ''queries'') True"]
  have "\<exists>g' c. linkNodes svc_db (link_request ''svc'' ''db'' (JStr ''queries'') True)
                = Inr (g', ''db-2-svc'')
        \<and> getCell g' ''db-2-svc'' = Some c \<and> cell_kind c = Edge
        \<and> cell_source c = Some ''svc'' \<and> cell_target c = Some ''db''"
    unfolding f t using d r c nodes u m by auto
  moreover
  from linkNodes_new_edge_id [of svc_db "link_request ''svc'' ''db'' (JStr ''queries'') False"]
  have "\<exists>g'. linkNodes svc_db (link_request ''svc'' ''db'' (JStr ''queries'') False)
                = Inr (g', ''svc-2-db'')"
    unfolding f t using d r c n by auto
  ultimately show ?thesis using d r c by blast
qed

lemma existing_edge_Some:
  "existing_edge g a b = Some i \<Longrightarrow>
   getCell g i \<noteq> None \<and> (i = idDirect a b \<or> i = idReverse a b \<or> i = idCanonical a b)"
  by (auto simp: existing_edge_def split: if_splits)

text \<open>What \<^verbatim>\<open>linkNodes\<close> does when it finds a cell under one of the candidate
  identifiers: the cell gets the title, if one is given, the new style and the
  waypoints; nothing is inserted.\<close>

lemma linkNodes_update:
  assumes "existing_edge g (l_from p) (l_to p) = Some i"
  shows "linkNodes g p =
    Inr (apply_waypoints
           (setStyle (if l_title p \<noteq> JUndefined then setValue g i (l_title p) else g) i
              (JStr (stringifyStyle
                 (computeEffectiveLineStyle (l_style p) (l_undirected p) (l_edgeStyle p)))))
           i (l_waypoints p), i)"
  using assms by (simp add: linkNodes_def toStyleString_object Let_def)

lemma linkNodes_update_cell:
  assumes "existing_edge g (l_from p) (l_to p) = Some i"
  shows "\<exists>g' c c'. linkNodes g p = Inr (g', i) \<and> getCell g i = Some c \<and> getCell g' i = Some c'
    \<and> cell_value c' = (if l_title p \<noteq> JUndefined then l_title p else cell_value c)
    \<and> cell_kind c' = cell_kind c \<and> cell_source c' = cell_source c
    \<and> cell_target c' = cell_target c \<and> cell_parent c' = cell_parent c
    \<and> fmdom (cells g') = fmdom (cells g)
    \<and> (\<forall>j. j \<noteq> i \<longrightarrow> getCell g' j = getCell g j)"
proof -
  from existing_edge_Some [OF assms] obtain c where c: "getCell g i = Some c" by auto
  show ?thesis
    unfolding linkNodes_update [OF assms]
    using c
    by (simp add: getCell_apply_waypoints_same getCell_apply_waypoints_other fmdom_apply_waypoints
        setStyle_def setValue_def getCell_update_cell fmdom_update_cell)
qed

text \<open>
  C5 (amended). \<^verbatim>\<open>linkNodes\<close> makes no check of its own on the two endpoints and raises
  no error: for every diagram and every request it returns the identifier of a cell of
  the new diagram. When no cell is stored under the three candidate identifiers, that
  cell is a new edge, connected to each endpoint that resolves to a cell and left
  unconnected at one that does not.
\<close>

theorem linkNodes_no_endpoint_check:
  "\<exists>g' i c. linkNodes g p = Inr (g', i) \<and> getCell g' i = Some c
     \<and> (existing_edge g (l_from p) (l_to p) = None \<longrightarrow>
          getCell g i = None \<and> cell_kind c = Edge
          \<and> cell_source c = (if getCell g (l_from p) = None then None else Some (l_from p))
          \<and> cell_target c = (if getCell g (l_to p) = None then None else Some (l_to p)))"
proof (cases "existing_edge g (l_from p) (l_to p)")
  case None
  then have "getCell g (idDirect (l_from p) (l_to p)) = None"
    and "getCell g (idCanonical (l_from p) (l_to p)) = None"
    by (simp_all add: existing_edge_def split: if_splits)
  then have fresh: "getCell g (idToUse p) = None" by (simp add: idToUse_def)
  from linkNodes_insert [OF None] obtain g' c where
    "linkNodes g p = Inr (g', idToUse p)"
    and "g' = g\<lparr>cells := fmupd (idToUse p) c (cells g)\<rparr>"
    and "cell_kind c = Edge"
      "cell_source c = (if getCell g (l_from p) = None then None else Some (l_from p))"
      "cell_target c = (if getCell g (l_to p) = None then None else Some (l_to p))"
    by force
  moreover from this have "getCell g' (idToUse p) = Some c" by (simp add: getCell_def)
  ultimately show ?thesis using fresh by blast
next
  case (Some i)
  from linkNodes_update_cell [OF Some] show ?thesis using Some by auto
qed

theorem linkNodes_no_endpoint_check_witness:
  "getCell svc_db ''cache'' = None
   \<and> (\<exists>g' c. linkNodes svc_db (link_request ''svc'' ''cache'' (JStr ''lookup'') False)
               = Inr (g', ''svc-2-cache'')
         \<and> getCell g' ''svc-2-cache'' = Some c \<and> cell_kind c = Edge
         \<and> cell_source c = Some ''svc'' \<and> cell_target c = None)"
proof -
  let ?p = "link_request ''svc'' ''cache'' (JStr ''lookup'') False"
  have f: "l_from ?p = ''svc''" and t: "l_to ?p = ''cache''" by (simp_all add: link_request_def)
  have none: "existing_edge svc_db ''svc'' ''cache'' = None"
    by (simp add: existing_edge_def svc_db_cells getCell_def idDirect_def idReverse_def
        idCanonical_def)
  have cells: "getCell svc_db ''svc'' \<noteq> None" "getCell svc_db ''cache'' = None"
    by (simp_all add: svc_db_cells getCell_def)
  have "linkNodes svc_db ?p = Inr (g', i) \<Longrightarrow> i = ''svc-2-cache''" for g' i
    using linkNodes_insert [of svc_db ?p] none
    by (auto simp: f t idToUse_def link_request_def idDirect_def)
  with linkNodes_no_endpoint_check [of svc_db ?p] none cells show ?thesis
    unfolding f t by auto
qed

text \<open>
  C5 as stated fails: in the diagram of \<^verbatim>\<open>svc\<close> and \<^verbatim>\<open>db\<close> no cell is called \<^verbatim>\<open>cache\<close>, yet
  linking \<^verbatim>\<open>svc\<close> to \<^verbatim>\<open>cache\<close> raises nothing and stores an edge whose target end is
  unconnected.
\<close>

theorem linkNodes_missing_endpoint_counterexample:
  "getCell svc_db ''cache'' = None
   \<and> linkNodes svc_db (link_request ''svc'' ''cache'' (JStr ''lookup'') False)
     = Inr (svc_db\<lparr>cells :=
              fmupd ''svc-2-cache''
                \<lparr>cell_value = JStr ''lookup'',
                 cell_style = JStr ''edgeStyle=none;noEdgeStyle=1;orthogonal=1;html=1;'',
                 cell_geometry =
                   Some \<lparr>geo_x = JNum 0, geo_y = JNum 0, geo_width = JNum 0, geo_height = JNum 0,
                         geo_relative = True, geo_points = None\<rparr>,
                 cell_kind = Edge, cell_parent = None, cell_source = Some ''svc'',
                 cell_target = None\<rparr>
                (cells svc_db)\<rparr>,
            ''svc-2-cache'')"
  by code_simp













section \<open>Removing nodes: claims\<close>

lemma removed_vertex_single:
  "removed_vertex g (map (\<lambda>i. if getCell g i = None then None else Some i) [A]) s
     \<longleftrightarrow> s = A \<and> (\<exists>c. getCell g A = Some c \<and> cell_kind c = Vertex)"
  by (cases "getCell g A") (auto simp: removed_vertex_def getCell_def)

lemma getCell_removeNodes_single:
  "getCell (removeNodes g [A]) j =
     (if j = A then None
      else case getCell g j of
             None \<Rightarrow> None
           | Some c \<Rightarrow>
               if cell_kind c = Edge \<and> (cell_source c = Some A \<or> cell_target c = Some A)
                  \<and> (\<exists>a. getCell g A = Some a \<and> cell_kind a = Vertex)
               then None else Some c)"
proof (cases "getCell g A")
  case None
  then show ?thesis
    by (auto simp: removeNodes_def removeCells_def getCell_def touches_removed_def
        removed_vertex_def split: option.splits)
next
  case (Some a)
  then show ?thesis
    by (auto simp: removeNodes_def removeCells_def getCell_def touches_removed_def
        removed_vertex_def split: option.splits)
qed

text \<open>
  C9. Removing a node removes it and every edge whose source or target it is, and leaves
  every other cell as it was; an identifier that names an edge removes that edge and
  nothing else.
\<close>

theorem removeNodes_cascade:
  "(getCell g A = Some a \<and> cell_kind a = Vertex \<longrightarrow>
      getCell (removeNodes g [A]) A = None
      \<and> (\<forall>e c. getCell g e = Some c \<and> cell_kind c = Edge
                 \<and> (cell_source c = Some A \<or> cell_target c = Some A)
               \<longrightarrow> getCell (removeNodes g [A]) e = None)
      \<and> (\<forall>j c. getCell g j = Some c \<and> j \<noteq> A
                 \<and> \<not> (cell_kind c = Edge \<and> (cell_source c = Some A \<or> cell_target c = Some A))
               \<longrightarrow> getCell (removeNodes g [A]) j = Some c))
   \<and> (getCell g A = Some a \<and> cell_kind a = Edge \<longrightarrow>
      cells (removeNodes g [A]) = fmdrop A (cells g))"
proof (intro conjI impI)
  assume v: "getCell g A = Some a \<and> cell_kind a = Vertex"
  show "getCell (removeNodes g [A]) A = None"
    by (simp add: getCell_removeNodes_single)
  show "\<forall>e c. getCell g e = Some c \<and> cell_kind c = Edge
                 \<and> (cell_source c = Some A \<or> cell_target c = Some A)
               \<longrightarrow> getCell (removeNodes g [A]) e = None"
    using v by (auto simp: getCell_removeNodes_single)
  show "\<forall>j c. getCell g j = Some c \<and> j \<noteq> A
                 \<and> \<not> (cell_kind c = Edge \<and> (cell_source c = Some A \<or> cell_target c = Some A))
               \<longrightarrow> getCell (removeNodes g [A]) j = Some c"
    using v by (auto simp: getCell_removeNodes_single)
next
  assume e: "getCell g A = Some a \<and> cell_kind a = Edge"
  show "cells (removeNodes g [A]) = fmdrop A (cells g)"
  proof (rule fmap_ext)
    fix j
    have "getCell (removeNodes g [A]) j = (if j = A then None else getCell g j)"
      using e by (auto simp: getCell_removeNodes_single split: option.splits)
    then show "fmlookup (cells (removeNodes g [A])) j = fmlookup (fmdrop A (cells g)) j"
      by (simp add: getCell_def)
  qed
qed

theorem removeNodes_cascade_witness:
  "getCell svc_db_both_ways ''db'' \<noteq> None
   \<and> getCell svc_db_both_ways ''svc-2-db'' \<noteq> None
   \<and> getCell (removeNodes svc_db_both_ways [''db'']) ''db'' = None
   \<and> getCell (removeNodes svc_db_both_ways [''db'']) ''svc-2-db'' = None
   \<and> getCell (removeNodes svc_db_both_ways [''db'']) ''db-2-svc'' = None
   \<and> getCell (removeNodes svc_db_both_ways [''db'']) ''svc'' = getCell svc_db_both_ways ''svc''
   \<and> cells (removeNodes svc_db_both_ways [''svc-2-db''])
       = fmdrop ''svc-2-db'' (cells svc_db_both_ways)"
proof -
  let ?g = svc_db_both_ways
  have db: "getCell ?g ''db'' = Some (vertex_at ''db''
      (JStr ''shape=cylinder3;whiteSpace=wrap;html=1;boundedLbl=1;backgroundOutline=1;size=15;'')
      300 150 60 80)"
    and svc: "getCell ?g ''svc'' = Some (vertex_at ''svc''
      (JObj [(''rounded'', JNum 1), (''whiteSpace'', JStr ''wrap''), (''html'', JNum 1)])
      100 150 120 60)"
    and e1: "getCell ?g ''svc-2-db'' = Some (edge_between ''svc'' ''db'' (JStr ''queries''))"
    and e2: "getCell ?g ''db-2-svc'' = Some (edge_between ''db'' ''svc'' (JStr ''replies''))"
    by (simp_all add: svc_db_both_ways_def svc_db_cells getCell_def)
  have k: "cell_kind (vertex_at t s x y w h) = Vertex"
    "cell_kind (edge_between a b l) = Edge"
    "cell_source (edge_between a b l) = Some a" "cell_target (edge_between a b l) = Some b"
    for t s x y w h a b l
    by (simp_all add: vertex_at_def edge_between_def)
  note n = removeNodes_cascade [of ?g "''db''", THEN conjunct1, rule_format, OF conjI, OF db k(1)]
  note e = removeNodes_cascade [of ?g "''svc-2-db''", THEN conjunct2, rule_format, OF conjI,
      OF e1 k(2)]
  have "getCell (removeNodes ?g [''db'']) ''svc-2-db'' = None"
    using n [THEN conjunct2, THEN conjunct1, rule_format, of "''svc-2-db''"] e1 k by simp
  moreover have "getCell (removeNodes ?g [''db'']) ''db-2-svc'' = None"
    using n [THEN conjunct2, THEN conjunct1, rule_format, of "''db-2-svc''"] e2 k by simp
  moreover have "getCell (removeNodes ?g [''db'']) ''svc'' = getCell ?g ''svc''"
    using n [THEN conjunct2, THEN conjunct2, rule_format, of "''svc''"] svc k by simp
  ultimately show ?thesis
    using n [THEN conjunct1] e db e1 by simp
qed

section \<open>Editing a node: claims\<close>











section \<open>Decimal numbers: lemmas\<close>

lemma digit_cases:
  assumes "d < (10::nat)"
  obtains "d = 0" | "d = 1" | "d = 2" | "d = 3" | "d = 4" | "d = 5" | "d = 6" | "d = 7"
    | "d = 8" | "d = 9"
  using assms by atomize_elim arith

lemma digit_char_props:
  assumes "d < 10"
  shows "is_digit (digit_char d)" and "digit_val (digit_char d) = d"
    and "\<not> js_whitespace (digit_char d)" and "digit_char d \<noteq> CHR ''-''"
    and "digit_char d \<noteq> CHR ''+''" and "digit_char d \<noteq> CHR '';''"
    and "digit_char d \<noteq> CHR ''=''"
  using assms
  by (cases d rule: digit_cases;
      simp add: digit_char_def is_digit_def digit_val_def js_whitespace_def)+

lemma show_nat_nonempty: "show_nat n \<noteq> []"
  by (subst show_nat.simps) simp

lemma show_nat_digits: "c \<in> set (show_nat n) \<Longrightarrow> is_digit c \<and> c \<noteq> CHR '';'' \<and> c \<noteq> CHR ''=''"
proof (induction n arbitrary: c rule: show_nat.induct)
  case (1 n)
  show ?case
  proof (cases "n < 10")
    case True
    with "1.prems" have "c = digit_char n" by (subst (asm) show_nat.simps) simp
    with True show ?thesis by (simp add: digit_char_props)
  next
    case False
    with "1.prems" have "c \<in> set (show_nat (n div 10)) \<or> c = digit_char (n mod 10)"
      by (subst (asm) show_nat.simps) auto
    then show ?thesis
    proof
      assume "c \<in> set (show_nat (n div 10))"
      with False show ?thesis by (simp add: "1.IH")
    next
      assume "c = digit_char (n mod 10)"
      then show ?thesis by (simp add: digit_char_props)
    qed
  qed
qed

lemma show_nat_hd:
  "is_digit (hd (show_nat n)) \<and> \<not> js_whitespace (hd (show_nat n))
   \<and> hd (show_nat n) \<noteq> CHR ''-'' \<and> hd (show_nat n) \<noteq> CHR ''+''"
proof (induction n rule: show_nat.induct)
  case (1 n)
  show ?case
  proof (cases "n < 10")
    case True
    then have "show_nat n = [digit_char n]" by (subst show_nat.simps) simp
    with True show ?thesis by (simp add: digit_char_props)
  next
    case False
    then have "show_nat n = show_nat (n div 10) @ [digit_char (n mod 10)]"
      by (subst show_nat.simps) simp
    then have "hd (show_nat n) = hd (show_nat (n div 10))"
      by (simp add: show_nat_nonempty)
    with "1.IH" [OF False] show ?thesis by simp
  qed
qed

lemma digits_val_snoc: "digits_val (ds @ [c]) = 10 * digits_val ds + digit_val c"
  by (simp add: digits_val_def)

lemma digits_val_show_nat: "digits_val (show_nat n) = n"
proof (induction n rule: show_nat.induct)
  case (1 n)
  show ?case
  proof (cases "n < 10")
    case True
    then have "show_nat n = [digit_char n]" by (subst show_nat.simps) simp
    with True show ?thesis by (simp add: digits_val_def digit_char_props)
  next
    case False
    then have "show_nat n = show_nat (n div 10) @ [digit_char (n mod 10)]"
      by (subst show_nat.simps) simp
    with "1.IH" [OF False] show ?thesis
      by (simp add: digits_val_snoc digit_char_props)
  qed
qed

lemma parseInt_show_nat: "parseInt (show_nat n) = Some (int n)"
proof -
  note hd = show_nat_hd [of n]
  have all: "takeWhile is_digit (show_nat n) = show_nat n"
    using show_nat_digits [of _ n] by (simp add: takeWhile_eq_all_conv)
  have "dropWhile js_whitespace (show_nat n) = show_nat n"
    using hd show_nat_nonempty [of n] by (cases "show_nat n") simp_all
  then show ?thesis
    using hd by (simp add: parseInt_def Let_def all show_nat_nonempty digits_val_show_nat)
qed

lemma parseInt_JNum: "0 \<le> r \<Longrightarrow> parseInt (js_String (JNum r)) = Some r"
  by (simp add: show_int_def parseInt_show_nat)

lemma plain_show_int: "0 \<le> r \<Longrightarrow> plain (show_int r)"
  using show_nat_digits [of _ "nat r"] by (auto simp: plain_def show_int_def)

lemma arcSize_of_JNum: "1 \<le> r \<Longrightarrow> arcSize_of (JNum r) = 2 * r"
  using parseInt_JNum [of r] by (simp add: arcSize_of_def)

lemma arcSize_of_nonneg: "0 \<le> arcSize_of cr"
  by (simp add: arcSize_of_def DEFAULT_CORNER_RADIUS_def split: option.splits)

end
